theory Spec2Isabelle
  imports Main "HOL-Library.Word"
begin

section \<open>Machine integers of the fixtures\<close>

text \<open>
  The fixtures are C programs; their \<^verbatim>\<open>int\<close> is the 32-bit two's complement integer.
  A value is a \<^typ>\<open>32 word\<close>, read as signed by \<^const>\<open>sint\<close>; comparisons are the
  signed ones. Arithmetic wraps around, as it does on the machines the fixtures run on
  (the C standard leaves the result of a signed overflow open; whatever it is, it is a
  32-bit value).
\<close>

type_synonym cint = "32 word"

lemma sint_word_of_int_small:
  "- (2 ^ 31) \<le> m \<Longrightarrow> m < 2 ^ 31 \<Longrightarrow> sint (word_of_int m :: cint) = m"
  by (simp add: sint_sbintrunc' signed_take_bit_int_eq_self)

lemma sint_pred:
  assumes "\<not> n <=s 1"
  shows "sint (n - 1) = sint (n::cint) - 1"
proof -
  have a: "1 < sint n" using assms by (simp add: word_sle_eq)
  have b: "sint n < 2 ^ 31" using sint_lt [of n] by simp
  have "signed_take_bit 31 (sint n - 1) = sint n - 1"
    using a b by (intro signed_take_bit_int_eq_self) auto
  then show ?thesis by (simp add: sint_word_diff)
qed

lemma sint_succ:
  assumes "k <s 2"
  shows "sint (k + 1) = sint (k::cint) + 1"
proof -
  have a: "sint k < 2" using assms by (simp add: word_sless_alt)
  have b: "- (2 ^ 31) \<le> sint k" using sint_ge [of k] by simp
  have "signed_take_bit 31 (sint k + 1) = sint k + 1"
    using a b by (intro signed_take_bit_int_eq_self) auto
  then show ?thesis by (simp add: sint_word_ariths)
qed


section \<open>The fixture function factorial\<close>

text \<open>
  \<^verbatim>\<open>samples/all_features.c\<close>, lines 6 to 9 (and, with redundant parentheses,
  \<^verbatim>\<open>lib_translator/test_j2c_lib.c\<close>, lines 10 to 15):
  \<^verbatim>\<open>
  int factorial(int n) {
      if (n <= 1) return 1;
      return n * factorial(n - 1);
  }
  \<close>
  The recursion is not structural: the argument of the recursive call is \<open>n - 1\<close>
  with \<open>1 < n\<close>, so the signed value of the argument decreases and stays positive.
\<close>

function factorial :: "cint \<Rightarrow> cint" where
  "factorial n = (if n <=s 1 then 1 else n * factorial (n - 1))"
  by pat_completeness auto
termination
  by (relation "measure (\<lambda>n. nat (sint n))") (auto simp: sint_pred word_sle_eq)

declare factorial.simps [simp del]


section \<open>The fixture matrix\_multiply\<close>

subsection \<open>Memory, errors and output\<close>

text \<open>
  The three matrices of \<^verbatim>\<open>main\<close> are passed to the functions by address and
  \<^verbatim>\<open>multiply_2x2\<close> writes through its third argument, so the model keeps an explicit
  store from addresses to cells. A cell that was never written has no value, and
  reading it, like indexing outside \<open>[0, 2)\<close>, is an error of the model.
  The state also holds the text printed so far.
\<close>

datatype c_error = OutOfBounds | UninitializedRead

type_synonym addr = nat

record state =
  memory :: "addr \<rightharpoonup> cint"
  stdout :: string

definition then_do :: "c_error + 'a \<Rightarrow> ('a \<Rightarrow> c_error + 'b) \<Rightarrow> c_error + 'b" where
  "then_do r f = (case r of Inl e \<Rightarrow> Inl e | Inr v \<Rightarrow> f v)"

text \<open>The address of \<open>M[i][j]\<close> in an \<^verbatim>\<open>int M[2][2]\<close> stored row by row at \<open>M\<close>.\<close>

definition elem_addr :: "addr \<Rightarrow> cint \<Rightarrow> cint \<Rightarrow> c_error + addr" where
  "elem_addr M i j =
     (if 0 <=s i \<and> i <s 2 \<and> 0 <=s j \<and> j <s 2 then Inr (M + 2 * unat i + unat j)
      else Inl OutOfBounds)"

definition load_elem :: "state \<Rightarrow> addr \<Rightarrow> cint \<Rightarrow> cint \<Rightarrow> c_error + cint" where
  "load_elem st M i j =
     then_do (elem_addr M i j) (\<lambda>a.
       case memory st a of None \<Rightarrow> Inl UninitializedRead | Some v \<Rightarrow> Inr v)"

definition store_elem :: "state \<Rightarrow> addr \<Rightarrow> cint \<Rightarrow> cint \<Rightarrow> cint \<Rightarrow> c_error + state" where
  "store_elem st M i j v =
     then_do (elem_addr M i j) (\<lambda>a. Inr (st\<lparr>memory := (memory st)(a \<mapsto> v)\<rparr>))"

text \<open>\<^verbatim>\<open>printf\<close> with the conversion \<^verbatim>\<open>%d\<close>: the decimal digits of a signed value.\<close>

definition digit_char :: "nat \<Rightarrow> char" where
  "digit_char d = ''0123456789'' ! d"

fun show_nat :: "nat \<Rightarrow> string" where
  "show_nat n =
     (if n < 10 then [digit_char n] else show_nat (n div 10) @ [digit_char (n mod 10)])"

declare show_nat.simps [simp del]

definition show_int :: "int \<Rightarrow> string" where
  "show_int v = (if v < 0 then CHR ''-'' # show_nat (nat (- v)) else show_nat (nat v))"

text \<open>\<open>printf_s s\<close> is \<^verbatim>\<open>printf(s)\<close> for a format without conversions;
  \<open>printf_d pre v post\<close> is \<^verbatim>\<open>printf("pre%dpost", v)\<close>.\<close>

definition printf_s :: "string \<Rightarrow> state \<Rightarrow> state" where
  "printf_s s st = st\<lparr>stdout := stdout st @ s\<rparr>"

definition printf_d :: "string \<Rightarrow> cint \<Rightarrow> string \<Rightarrow> state \<Rightarrow> state" where
  "printf_d pre v post st = st\<lparr>stdout := stdout st @ pre @ show_int (sint v) @ post\<rparr>"

subsection \<open>multiply\_2x2\<close>

text \<open>
  \<^verbatim>\<open>
  void multiply_2x2(int A[2][2], int B[2][2], int C[2][2]) {
      for (int i = 0; i < 2; ++i)
          for (int j = 0; j < 2; ++j) {
              C[i][j] = 0;
              for (int k = 0; k < 2; ++k)
                  C[i][j] += A[i][k] * B[k][j];
          }
  }
  \<close>
  One recursive function for each loop, from the innermost; the loop variable is the
  argument that grows.
\<close>

function multiply_2x2_k ::
  "addr \<Rightarrow> addr \<Rightarrow> addr \<Rightarrow> cint \<Rightarrow> cint \<Rightarrow> cint \<Rightarrow> state \<Rightarrow> c_error + state" where
  "multiply_2x2_k A B C i j k st =
     (if k <s 2 then
        then_do (load_elem st C i j) (\<lambda>c.
        then_do (load_elem st A i k) (\<lambda>a.
        then_do (load_elem st B k j) (\<lambda>b.
        then_do (store_elem st C i j (c + a * b)) (\<lambda>st'.
        multiply_2x2_k A B C i j (k + 1) st'))))
      else Inr st)"
  by pat_completeness auto
termination
  by (relation "measure (\<lambda>(A, B, C, i, j, k, st). nat (2 - sint k))")
     (auto simp: sint_succ word_sless_alt)

function multiply_2x2_j ::
  "addr \<Rightarrow> addr \<Rightarrow> addr \<Rightarrow> cint \<Rightarrow> cint \<Rightarrow> state \<Rightarrow> c_error + state" where
  "multiply_2x2_j A B C i j st =
     (if j <s 2 then
        then_do (store_elem st C i j 0) (\<lambda>st1.
        then_do (multiply_2x2_k A B C i j 0 st1) (\<lambda>st2.
        multiply_2x2_j A B C i (j + 1) st2))
      else Inr st)"
  by pat_completeness auto
termination
  by (relation "measure (\<lambda>(A, B, C, i, j, st). nat (2 - sint j))")
     (auto simp: sint_succ word_sless_alt)

function multiply_2x2_i :: "addr \<Rightarrow> addr \<Rightarrow> addr \<Rightarrow> cint \<Rightarrow> state \<Rightarrow> c_error + state" where
  "multiply_2x2_i A B C i st =
     (if i <s 2 then
        then_do (multiply_2x2_j A B C i 0 st) (\<lambda>st1.
        multiply_2x2_i A B C (i + 1) st1)
      else Inr st)"
  by pat_completeness auto
termination
  by (relation "measure (\<lambda>(A, B, C, i, st). nat (2 - sint i))")
     (auto simp: sint_succ word_sless_alt)

definition multiply_2x2 :: "addr \<Rightarrow> addr \<Rightarrow> addr \<Rightarrow> state \<Rightarrow> c_error + state" where
  "multiply_2x2 A B C st = multiply_2x2_i A B C 0 st"

subsection \<open>print\_mat\<close>

text \<open>
  \<^verbatim>\<open>
  void print_mat(int M[2][2]) {
      for (int i = 0; i < 2; ++i) {
          for (int j = 0; j < 2; ++j) printf("%d ", M[i][j]);
          printf("\n");
      }
  }
  \<close>
\<close>

function print_mat_j :: "addr \<Rightarrow> cint \<Rightarrow> cint \<Rightarrow> state \<Rightarrow> c_error + state" where
  "print_mat_j M i j st =
     (if j <s 2 then
        then_do (load_elem st M i j) (\<lambda>v.
        print_mat_j M i (j + 1) (printf_d [] v '' '' st))
      else Inr st)"
  by pat_completeness auto
termination
  by (relation "measure (\<lambda>(M, i, j, st). nat (2 - sint j))")
     (auto simp: sint_succ word_sless_alt)

function print_mat_i :: "addr \<Rightarrow> cint \<Rightarrow> state \<Rightarrow> c_error + state" where
  "print_mat_i M i st =
     (if i <s 2 then
        then_do (print_mat_j M i 0 st) (\<lambda>st1.
        print_mat_i M (i + 1) (printf_s ''\<newline>'' st1))
      else Inr st)"
  by pat_completeness auto
termination
  by (relation "measure (\<lambda>(M, i, st). nat (2 - sint i))")
     (auto simp: sint_succ word_sless_alt)

definition print_mat :: "addr \<Rightarrow> state \<Rightarrow> c_error + state" where
  "print_mat M st = print_mat_i M 0 st"

subsection \<open>main\<close>

text \<open>
  \<^verbatim>\<open>
  int main() {
      int A[2][2] = {{1,2},{3,4}};
      int B[2][2] = {{5,6},{7,8}};
      int C[2][2];
      printf("Matrix A:\n"); print_mat(A);
      printf("Matrix B:\n"); print_mat(B);
      multiply_2x2(A,B,C);
      printf("A x B =\n"); print_mat(C);
      return 0;
  }
  \<close>
  The three local arrays are three disjoint blocks of four cells. \<open>A\<close> and \<open>B\<close> are
  initialised; the cells of \<open>C\<close> have no value until \<^verbatim>\<open>multiply_2x2\<close> writes them.
\<close>

fun init_2x2 :: "addr \<Rightarrow> cint list list \<Rightarrow> state \<Rightarrow> state" where
  "init_2x2 M [[a, b], [c, d]] st =
     st\<lparr>memory := (memory st)(M \<mapsto> a, M + 1 \<mapsto> b, M + 2 \<mapsto> c, M + 3 \<mapsto> d)\<rparr>"
| "init_2x2 M _ st = st"

definition main_A :: addr where "main_A = 0"
definition main_B :: addr where "main_B = 4"
definition main_C :: addr where "main_C = 8"

definition main :: "state \<Rightarrow> c_error + (cint \<times> state)" where
  "main st0 =
    (let st1 = init_2x2 main_A [[1, 2], [3, 4]] st0;
         st2 = init_2x2 main_B [[5, 6], [7, 8]] st1;
         st3 = printf_s ''Matrix A:\<newline>'' st2 in
     then_do (print_mat main_A st3) (\<lambda>st4.
     then_do (print_mat main_B (printf_s ''Matrix B:\<newline>'' st4)) (\<lambda>st5.
     then_do (multiply_2x2 main_A main_B main_C st5) (\<lambda>st6.
     then_do (print_mat main_C (printf_s ''A x B =\<newline>'' st6)) (\<lambda>st7.
     Inr (0, st7))))))"

definition initial_state :: state where
  "initial_state = \<lparr>memory = Map.empty, stdout = []\<rparr>"

text \<open>The comment that ends the file, each line of it closed by a line feed.\<close>

definition expected_output :: string where
  "expected_output =
     ''Matrix A:\<newline>1 2 \<newline>3 4 \<newline>Matrix B:\<newline>5 6 \<newline>7 8 \<newline>A x B =\<newline>19 22 \<newline>43 50 \<newline>''"



section \<open>Syntax of the fixtures\<close>

text \<open>
  The fixtures are translation units of a C-family language. A unit is a list of
  top-level declarations; statements and expressions are the usual ones. Two slots are
  left open in the trees: \<open>'n\<close>, how a type is written in a declaration or a cast, and
  \<open>'a\<close>, what is attached to each expression. In a unit as it is written, a type is a
  \<open>type_name\<close> and nothing is attached (\<open>unit\<close>).
\<close>

datatype type_name =
    Primitive string
  | StructName string
  | PointerTo type_name
  | ArrayOf type_name "nat option list"

datatype literal = IntLit int | FloatLit string | CharLit char | StringLit string | BoolLit bool

datatype binop =
    Add | Sub | Mul | Div | Mod
  | Lt | Le | Gt | Ge | Eq | Ne
  | LogAnd | LogOr
  | BitAnd | BitOr | BitXor | Shl | Shr

datatype unop = Neg | LogNot | BitNot | Incr | Decr | AddressOf | Deref

datatype fixity = Prefix | Postfix

datatype ('n, 'a) expr =
    Literal 'a literal
  | Identifier 'a string
  | BinaryExpr 'a binop "('n, 'a) expr" "('n, 'a) expr"
  | UnaryExpr 'a unop fixity "('n, 'a) expr"
  | AssignExpr 'a "binop option" "('n, 'a) expr" "('n, 'a) expr"
  | TernaryExpr 'a "('n, 'a) expr" "('n, 'a) expr" "('n, 'a) expr"
  | CallExpr 'a "('n, 'a) expr" "('n, 'a) expr list"
  | IndexExpr 'a "('n, 'a) expr" "('n, 'a) expr"
  | MemberExpr 'a "('n, 'a) expr" string
  | CastExpr 'a 'n "('n, 'a) expr"

text \<open>
  An initializer is an expression or a brace list; \<open>FieldInit\<close> is a brace list whose
  values have been given the names of the fields they initialize.
\<close>

datatype ('n, 'a) init =
    ExprInit "('n, 'a) expr"
  | BraceInit "('n, 'a) init list"
  | FieldInit "(string \<times> ('n, 'a) init) list"

text \<open>In \<open>Switch\<close>, a case is its label (\<open>None\<close> for \<^verbatim>\<open>default\<close>) and its statements.\<close>

datatype ('n, 'a) stmt =
    VariableDeclaration 'n string "('n, 'a) init option"
  | Block "('n, 'a) stmt list"
  | If "('n, 'a) expr" "('n, 'a) stmt" "('n, 'a) stmt option"
  | For "('n, 'a) stmt option" "('n, 'a) expr option" "('n, 'a) expr option" "('n, 'a) stmt"
  | While "('n, 'a) expr" "('n, 'a) stmt"
  | DoWhile "('n, 'a) stmt" "('n, 'a) expr"
  | Switch "('n, 'a) expr" "(('n, 'a) expr option \<times> ('n, 'a) stmt list) list"
  | Break
  | Continue
  | Return "('n, 'a) expr option"
  | ExpressionStatement "('n, 'a) expr"

text \<open>A function declaration without a body is a prototype.\<close>

datatype ('n, 'a) decl =
    FunctionDeclaration 'n string "('n \<times> string) list" "('n, 'a) stmt list option"
  | StructDeclaration string "('n \<times> string) list"
  | EnumDeclaration string "string list"
  | GlobalDeclaration "('n, 'a) stmt"

datatype ('n, 'a) program = Program "('n, 'a) decl list"

definition bind_result :: "'e + 'a \<Rightarrow> ('a \<Rightarrow> 'e + 'b) \<Rightarrow> 'e + 'b" where
  "bind_result r f = (case r of Inl e \<Rightarrow> Inl e | Inr v \<Rightarrow> f v)"


section \<open>The resolver, from the specification\<close>

text \<open>
  The translator itself (lexer, parser, resolver, tables and generator) is not among the
  repository's C files, which are its fixtures. What follows is the symbol and type
  resolver as the specification describes it: the resolution of expressions,
  initializers and statements, and the two passes over a translation unit, of which the
  first collects the struct declarations and the signatures and the second resolves the
  bodies.
\<close>

subsection \<open>Types and symbols\<close>

text \<open>
  Modelled from the spec: the closed set of resolved types (the resolver's source is
  missing). Primitive types are the integers (signed or not, of a width), the floating
  types (of a width), character and boolean; \<open>Void\<close> is the result type of a procedure.
  A struct type carries its fields in declaration order.
\<close>

datatype ty =
    Integer bool nat
  | Floating nat
  | Character
  | Boolean
  | Void
  | Pointer ty
  | Array ty nat
  | Struct string "(string \<times> ty) list"
  | Function "ty list" ty

text \<open>
  Modelled from the spec: the kind of scope a symbol table entry was declared in (the
  resolver's source is missing).
\<close>

datatype scope_kind = Global | FunctionParameter | Local | StructMember

text \<open>
  Modelled from the spec: a symbol table entry, with its name, its resolved type and its
  scope kind; \<open>sym_decayed\<close> records that a parameter declared as an array was given the
  pointer type (the resolver's source is missing). Source positions are not kept.
\<close>

record symbol =
  sym_name :: string
  sym_type :: ty
  sym_kind :: scope_kind
  sym_decayed :: bool

type_synonym scope = "symbol list"

text \<open>
  Modelled from the spec: the state of the resolver's walk (its source is missing): the
  stack of scopes, innermost first, the struct declarations seen, and the result type of
  the function being resolved.
\<close>

record env =
  scopes :: "scope list"
  structs :: "(string \<times> (string \<times> ty) list) list"
  return_type :: ty

text \<open>
  Modelled from the spec: the resolver's only error, which names what is wrong (the
  resolver's source is missing).
\<close>

datatype type_error = TypeError string

text \<open>
  Modelled from the spec: a library call descriptor (the mapping table's source is
  missing): the source pattern (callee name and shape of the arguments), the target
  emission strategy and the argument transform. \<open>result\<close> is the type the resolver gives
  to a call of the routine.
\<close>

datatype arg_shape = AnyArgument | StringLiteralArgument

datatype emission_strategy =
    FreeFunctionCall string
  | MethodCall "string option" string
  | OperatorRewrite binop

datatype argument_transform = KeepArguments | ReorderArguments "nat list"

record library_call_descriptor =
  callee :: string
  shape :: "arg_shape list"
  variadic :: bool
  result :: ty
  strategy :: emission_strategy
  transform :: argument_transform

type_synonym library = "library_call_descriptor list"

text \<open>
  Modelled from the spec: names are looked up innermost scope first, so an inner
  declaration shadows an outer one (the resolver's source is missing).
\<close>

fun lookup :: "scope list \<Rightarrow> string \<Rightarrow> symbol option" where
  "lookup [] x = None"
| "lookup (s # ss) x =
     (case find (\<lambda>e. sym_name e = x) s of Some e \<Rightarrow> Some e | None \<Rightarrow> lookup ss x)"

text \<open>
  Modelled from the spec: the resolved type the resolver attached to an expression (the
  resolver's source is missing).
\<close>

fun annot :: "('n, 'a) expr \<Rightarrow> 'a" where
  "annot (Literal t _) = t"
| "annot (Identifier t _) = t"
| "annot (BinaryExpr t _ _ _) = t"
| "annot (UnaryExpr t _ _ _) = t"
| "annot (AssignExpr t _ _ _) = t"
| "annot (TernaryExpr t _ _ _) = t"
| "annot (CallExpr t _ _) = t"
| "annot (IndexExpr t _ _) = t"
| "annot (MemberExpr t _ _) = t"
| "annot (CastExpr t _ _) = t"

subsection \<open>Rules on types\<close>

text \<open>
  Modelled from the spec: the numeric types (the resolver's source is missing).
\<close>

fun numeric :: "ty \<Rightarrow> bool" where
  "numeric (Integer _ _) = True"
| "numeric (Floating _) = True"
| "numeric Character = True"
| "numeric Boolean = True"
| "numeric _ = False"

text \<open>
  Modelled from the spec: the integer types, among which character and boolean count
  (the resolver's source is missing).
\<close>

fun integral :: "ty \<Rightarrow> bool" where
  "integral (Integer _ _) = True"
| "integral Character = True"
| "integral Boolean = True"
| "integral _ = False"

text \<open>
  Modelled from the spec: the types of a value that can be tested, the numeric types and
  the pointers (the resolver's source is missing).
\<close>

fun scalar :: "ty \<Rightarrow> bool" where
  "scalar (Pointer _) = True"
| "scalar t = numeric t"

text \<open>
  Modelled from the spec: signedness and width of an integer type, and the width of a
  floating type, which promotion compares (the resolver's source is missing).
\<close>

fun int_rank :: "ty \<Rightarrow> bool \<times> nat" where
  "int_rank (Integer s w) = (s, w)"
| "int_rank Character = (True, 8)"
| "int_rank _ = (True, 1)"

definition floating_width :: "ty \<Rightarrow> nat option" where
  "floating_width t = (case t of Floating n \<Rightarrow> Some n | _ \<Rightarrow> None)"

text \<open>
  Modelled from the spec: arithmetic between two numeric types promotes to the wider
  type, and a floating type dominates an integer one (the resolver's source is missing).
\<close>

definition promote :: "ty \<Rightarrow> ty \<Rightarrow> ty" where
  "promote a b =
     (case floating_width a of
        Some m \<Rightarrow> (case floating_width b of Some n \<Rightarrow> Floating (max m n) | None \<Rightarrow> Floating m)
      | None \<Rightarrow>
          (case floating_width b of
             Some n \<Rightarrow> Floating n
           | None \<Rightarrow>
               Integer (fst (int_rank a) \<and> fst (int_rank b))
                 (max 32 (max (snd (int_rank a)) (snd (int_rank b))))))"

text \<open>
  Modelled from the spec: a value is assignable to a location of its own type; a numeric
  value to a numeric location, as the source language converts between them; an array
  to a pointer to its elements; a string to an array of characters (the resolver's
  source is missing).
\<close>

definition assignable :: "ty \<Rightarrow> ty \<Rightarrow> bool" where
  "assignable a b =
     (a = b \<or> (numeric a \<and> numeric b) \<or>
      (case a of
         Array t n \<Rightarrow> b = Pointer t
       | Pointer t \<Rightarrow> t = Character \<and> (case b of Array u n \<Rightarrow> u = Character | _ \<Rightarrow> False)
       | _ \<Rightarrow> False))"

text \<open>Modelled from the spec: the type of a literal (the resolver's source is missing).\<close>

fun literal_type :: "literal \<Rightarrow> ty" where
  "literal_type (IntLit _) = Integer True 32"
| "literal_type (FloatLit _) = Floating 64"
| "literal_type (CharLit _) = Character"
| "literal_type (StringLit _) = Pointer Character"
| "literal_type (BoolLit _) = Boolean"

text \<open>
  Modelled from the spec: the arithmetic and the bitwise operators among the binary ones
  (the resolver's source is missing).
\<close>

definition arithmetic :: "binop \<Rightarrow> bool" where
  "arithmetic op = (op \<in> {Add, Sub, Mul, Div, Mod})"

definition bitwise :: "binop \<Rightarrow> bool" where
  "bitwise op = (op \<in> {BitAnd, BitOr, BitXor, Shl, Shr})"

text \<open>
  Modelled from the spec: the type of a binary expression from the types of its
  operands, \<open>None\<close> when the operator does not apply to them (the resolver's source is
  missing).
\<close>

definition binary_type :: "binop \<Rightarrow> ty \<Rightarrow> ty \<Rightarrow> ty option" where
  "binary_type op a b =
     (if arithmetic op then
        (if numeric a \<and> numeric b \<and> (if op = Mod then integral a \<and> integral b else True)
         then Some (promote a b) else None)
      else if bitwise op then
        (if integral a \<and> integral b then Some (promote a b) else None)
      else if op \<in> {LogAnd, LogOr} then
        (if scalar a \<and> scalar b then Some (Integer True 32) else None)
      else
        (if (numeric a \<and> numeric b) \<or> (a = b \<and> scalar a) then Some (Integer True 32) else None))"

text \<open>
  Modelled from the spec: the expressions that name a location, which assignment,
  increment and address-of need (the resolver's source is missing).
\<close>

fun is_lvalue :: "('n, 'a) expr \<Rightarrow> bool" where
  "is_lvalue (Identifier _ _) = True"
| "is_lvalue (IndexExpr _ _ _) = True"
| "is_lvalue (MemberExpr _ _ _) = True"
| "is_lvalue (UnaryExpr _ Deref Prefix _) = True"
| "is_lvalue _ = False"

text \<open>
  Modelled from the spec: the type of a unary expression; \<open>lv\<close> says that the operand
  is a location (the resolver's source is missing).
\<close>

definition unary_type :: "unop \<Rightarrow> bool \<Rightarrow> ty \<Rightarrow> ty option" where
  "unary_type op lv t =
     (case op of
        Neg \<Rightarrow> if numeric t then Some (promote t t) else None
      | LogNot \<Rightarrow> if scalar t then Some (Integer True 32) else None
      | BitNot \<Rightarrow> if integral t then Some (promote t t) else None
      | Incr \<Rightarrow> if lv \<and> scalar t then Some t else None
      | Decr \<Rightarrow> if lv \<and> scalar t then Some t else None
      | AddressOf \<Rightarrow> if lv then Some (Pointer t) else None
      | Deref \<Rightarrow> (case t of Pointer u \<Rightarrow> Some u | _ \<Rightarrow> None))"

subsection \<open>Written types\<close>

text \<open>
  Modelled from the spec: the primitive type a type keyword stands for (the resolver's
  source is missing).
\<close>

definition primitive_type :: "string \<Rightarrow> ty option" where
  "primitive_type s = map_of
     [(''int'', Integer True 32), (''long'', Integer True 64), (''short'', Integer True 16),
      (''unsigned'', Integer False 32), (''float'', Floating 32), (''double'', Floating 64),
      (''char'', Character), (''bool'', Boolean), (''void'', Void)] s"

text \<open>
  Modelled from the spec: the array type of a declarator with a list of dimensions, the
  first dimension outermost (the resolver's source is missing).
\<close>

fun array_of :: "ty \<Rightarrow> nat list \<Rightarrow> ty" where
  "array_of t [] = t"
| "array_of t (d # ds) = Array (array_of t ds) d"

text \<open>
  Modelled from the spec: the sizes of the dimensions (the resolver's source is missing).
  Only the first may be left out; it is then the length of the initializer.
\<close>

fun dimensions :: "nat option \<Rightarrow> nat option list \<Rightarrow> nat list option" where
  "dimensions len [] = Some []"
| "dimensions len (None # ds) =
     (case (len, those ds) of (Some n, Some ns) \<Rightarrow> Some (n # ns) | _ \<Rightarrow> None)"
| "dimensions len (Some d # ds) = map_option (Cons d) (those ds)"

text \<open>
  Modelled from the spec: the resolved type of a written type (the resolver's source is
  missing). A struct name stands for the struct declared under it, with its fields in
  declaration order; an unknown name is a type error.
\<close>

fun resolve_type ::
  "(string \<times> (string \<times> ty) list) list \<Rightarrow> nat option \<Rightarrow> type_name \<Rightarrow> type_error + ty" where
  "resolve_type S len (Primitive s) =
     (case primitive_type s of
        None \<Rightarrow> Inl (TypeError (''unknown type '' @ s)) | Some t \<Rightarrow> Inr t)"
| "resolve_type S len (StructName s) =
     (case map_of S s of
        None \<Rightarrow> Inl (TypeError (''unknown struct '' @ s)) | Some fs \<Rightarrow> Inr (Struct s fs))"
| "resolve_type S len (PointerTo n) = bind_result (resolve_type S None n) (\<lambda>t. Inr (Pointer t))"
| "resolve_type S len (ArrayOf n ds) =
     bind_result (resolve_type S None n) (\<lambda>t.
       case dimensions len ds of
         None \<Rightarrow> Inl (TypeError ''array of unknown size'')
       | Some ns \<Rightarrow> Inr (array_of t ns))"

subsection \<open>Expressions\<close>

text \<open>
  Modelled from the spec: resolution of an expression (the resolver's source is
  missing). Every sub-expression gets its type; an identifier that no scope binds, a
  field the struct does not have, operands an operator does not take, arguments that do
  not fit the parameters and a value that is not assignable are type errors. A cast is
  kept as written. A call of a routine of the mapping table gets the routine's result
  type; the shape of its arguments is left to the generator's lookup.
\<close>

fun resolve_expr :: "library \<Rightarrow> env \<Rightarrow> (type_name, unit) expr \<Rightarrow> type_error + (ty, ty) expr"
and resolve_args ::
  "library \<Rightarrow> env \<Rightarrow> (type_name, unit) expr list \<Rightarrow> type_error + (ty, ty) expr list"
where
  "resolve_expr L env (Literal u l) = Inr (Literal (literal_type l) l)"
| "resolve_expr L env (Identifier u x) =
     (case lookup (scopes env) x of
        None \<Rightarrow> Inl (TypeError (''undeclared identifier '' @ x))
      | Some s \<Rightarrow> Inr (Identifier (sym_type s) x))"
| "resolve_expr L env (BinaryExpr u op a b) =
     bind_result (resolve_expr L env a) (\<lambda>a'.
     bind_result (resolve_expr L env b) (\<lambda>b'.
       case binary_type op (annot a') (annot b') of
         None \<Rightarrow> Inl (TypeError ''operands of a binary operator'')
       | Some t \<Rightarrow> Inr (BinaryExpr t op a' b')))"
| "resolve_expr L env (UnaryExpr u op fx a) =
     bind_result (resolve_expr L env a) (\<lambda>a'.
       case unary_type op (is_lvalue a') (annot a') of
         None \<Rightarrow> Inl (TypeError ''operand of a unary operator'')
       | Some t \<Rightarrow> Inr (UnaryExpr t op fx a'))"
| "resolve_expr L env (AssignExpr u op l r) =
     bind_result (resolve_expr L env l) (\<lambda>l'.
     bind_result (resolve_expr L env r) (\<lambda>r'.
       if \<not> is_lvalue l' then Inl (TypeError ''assignment to a value'')
       else case op of
         None \<Rightarrow>
           if assignable (annot r') (annot l') then Inr (AssignExpr (annot l') op l' r')
           else Inl (TypeError ''assigned value is not assignable'')
       | Some bop \<Rightarrow>
           (case binary_type bop (annot l') (annot r') of
              None \<Rightarrow> Inl (TypeError ''operands of a compound assignment'')
            | Some t \<Rightarrow>
                if assignable t (annot l') then Inr (AssignExpr (annot l') op l' r')
                else Inl (TypeError ''assigned value is not assignable''))))"
| "resolve_expr L env (TernaryExpr u c a b) =
     bind_result (resolve_expr L env c) (\<lambda>c'.
     bind_result (resolve_expr L env a) (\<lambda>a'.
     bind_result (resolve_expr L env b) (\<lambda>b'.
       if \<not> scalar (annot c') then Inl (TypeError ''condition is not a scalar'')
       else if numeric (annot a') \<and> numeric (annot b')
         then Inr (TernaryExpr (promote (annot a') (annot b')) c' a' b')
       else if annot a' = annot b' then Inr (TernaryExpr (annot a') c' a' b')
       else Inl (TypeError ''branches of a conditional expression''))))"
| "resolve_expr L env (CallExpr u f args) =
     bind_result (resolve_args L env args) (\<lambda>args'.
       case f of
         Identifier _ g \<Rightarrow>
           (case lookup (scopes env) g of
              Some s \<Rightarrow>
                (case sym_type s of
                   Function ps r \<Rightarrow>
                     if length args' = length ps \<and> list_all2 assignable (map annot args') ps
                     then Inr (CallExpr r (Identifier (sym_type s) g) args')
                     else Inl (TypeError (''arguments of a call to '' @ g))
                 | _ \<Rightarrow> Inl (TypeError (g @ '' is not a function'')))
            | None \<Rightarrow>
                (case find (\<lambda>d. callee d = g) L of
                   Some d \<Rightarrow> Inr (CallExpr (result d) (Identifier (result d) g) args')
                 | None \<Rightarrow> Inl (TypeError (''undeclared function '' @ g))))
       | _ \<Rightarrow> Inl (TypeError ''callee is not a function name''))"
| "resolve_expr L env (IndexExpr u a i) =
     bind_result (resolve_expr L env a) (\<lambda>a'.
     bind_result (resolve_expr L env i) (\<lambda>i'.
       if \<not> integral (annot i') then Inl (TypeError ''index is not an integer'')
       else case annot a' of
         Array t n \<Rightarrow> Inr (IndexExpr t a' i')
       | Pointer t \<Rightarrow> Inr (IndexExpr t a' i')
       | _ \<Rightarrow> Inl (TypeError ''indexed value is not an array'')))"
| "resolve_expr L env (MemberExpr u a f) =
     bind_result (resolve_expr L env a) (\<lambda>a'.
       case annot a' of
         Struct n fs \<Rightarrow>
           (case map_of fs f of
              None \<Rightarrow> Inl (TypeError (''no field '' @ f))
            | Some t \<Rightarrow> Inr (MemberExpr t a' f))
       | _ \<Rightarrow> Inl (TypeError ''member access on a value that is not a struct''))"
| "resolve_expr L env (CastExpr u n a) =
     bind_result (resolve_type (structs env) None n) (\<lambda>t.
     bind_result (resolve_expr L env a) (\<lambda>a'. Inr (CastExpr t t a')))"
| "resolve_args L env [] = Inr []"
| "resolve_args L env (a # as) =
     bind_result (resolve_expr L env a) (\<lambda>a'.
     bind_result (resolve_args L env as) (\<lambda>as'. Inr (a' # as')))"

subsection \<open>Initializers\<close>

text \<open>
  Modelled from the spec: resolution of an initializer against the type of the variable
  it initializes (the resolver's source is missing). The values of a brace initializer
  for a struct are resolved one by one against the fields in declaration order, each
  value against the type of its field, and the result names the field of each value;
  more values than the struct declares fields is a type error. A brace initializer for
  an array resolves each value against the element type.
\<close>

fun resolve_init ::
  "library \<Rightarrow> env \<Rightarrow> ty \<Rightarrow> (type_name, unit) init \<Rightarrow> type_error + (ty, ty) init"
and resolve_fields ::
  "library \<Rightarrow> env \<Rightarrow> (string \<times> ty) list \<Rightarrow> (type_name, unit) init list \<Rightarrow>
   type_error + (string \<times> (ty, ty) init) list"
and resolve_elements ::
  "library \<Rightarrow> env \<Rightarrow> ty \<Rightarrow> (type_name, unit) init list \<Rightarrow> type_error + (ty, ty) init list"
where
  "resolve_init L env t (ExprInit e) =
     bind_result (resolve_expr L env e) (\<lambda>e'.
       if assignable (annot e') t then Inr (ExprInit e')
       else Inl (TypeError ''initializer is not assignable''))"
| "resolve_init L env t (BraceInit vs) =
     (case t of
        Struct n fs \<Rightarrow>
          if length fs < length vs then Inl (TypeError (''too many initializers for struct '' @ n))
          else bind_result (resolve_fields L env fs vs) (\<lambda>r. Inr (FieldInit r))
      | Array u n \<Rightarrow>
          if n < length vs then Inl (TypeError ''too many initializers for an array'')
          else bind_result (resolve_elements L env u vs) (\<lambda>r. Inr (BraceInit r))
      | _ \<Rightarrow> Inl (TypeError ''brace initializer for a scalar''))"
| "resolve_init L env t (FieldInit fs) = Inl (TypeError ''initializer with named fields'')"
| "resolve_fields L env fs [] = Inr []"
| "resolve_fields L env [] (v # vs) = Inl (TypeError ''too many initializers'')"
| "resolve_fields L env ((f, t) # fs) (v # vs) =
     bind_result (resolve_init L env t v) (\<lambda>v'.
     bind_result (resolve_fields L env fs vs) (\<lambda>r. Inr ((f, v') # r)))"
| "resolve_elements L env t [] = Inr []"
| "resolve_elements L env t (v # vs) =
     bind_result (resolve_init L env t v) (\<lambda>v'.
     bind_result (resolve_elements L env t vs) (\<lambda>r. Inr (v' # r)))"

subsection \<open>Statements\<close>

text \<open>Modelled from the spec: entering a scope (the resolver's source is missing).\<close>

definition push_scope :: "env \<Rightarrow> env" where
  "push_scope env = env\<lparr>scopes := [] # scopes env\<rparr>"

text \<open>
  Modelled from the spec: the scope kind of a variable declared now, global in the
  outermost scope and local inside (the resolver's source is missing).
\<close>

definition current_kind :: "env \<Rightarrow> scope_kind" where
  "current_kind env = (if length (scopes env) \<le> 1 then Global else Local)"

text \<open>
  Modelled from the spec: a declaration inserts its symbol into the current scope, and
  declaring a name the current scope already holds is a type error (the resolver's
  source is missing).
\<close>

definition declare_symbol :: "env \<Rightarrow> symbol \<Rightarrow> type_error + env" where
  "declare_symbol env s =
     (case scopes env of
        [] \<Rightarrow> Inl (TypeError ''declaration outside of any scope'')
      | sc # rest \<Rightarrow>
          if sym_name s \<in> set (map sym_name sc)
          then Inl (TypeError (''redeclaration of '' @ sym_name s))
          else Inr (env\<lparr>scopes := (s # sc) # rest\<rparr>))"

text \<open>
  Modelled from the spec: the number of elements an initializer gives to an array
  declared without a size (the resolver's source is missing).
\<close>

fun init_length :: "('n, 'a) init option \<Rightarrow> nat option" where
  "init_length (Some (BraceInit vs)) = Some (length vs)"
| "init_length (Some (ExprInit (Literal _ (StringLit s)))) = Some (Suc (length s))"
| "init_length _ = None"

text \<open>
  Modelled from the spec: resolution of the condition of a statement, which must be a
  scalar (the resolver's source is missing).
\<close>

definition resolve_condition ::
  "library \<Rightarrow> env \<Rightarrow> (type_name, unit) expr \<Rightarrow> type_error + (ty, ty) expr" where
  "resolve_condition L env c =
     bind_result (resolve_expr L env c) (\<lambda>c'.
       if scalar (annot c') then Inr c' else Inl (TypeError ''condition is not a scalar''))"

text \<open>
  Modelled from the spec: resolution of a part of a node that may be absent (the
  resolver's source is missing).
\<close>

definition resolve_optional ::
  "('x \<Rightarrow> type_error + 'y) \<Rightarrow> 'x option \<Rightarrow> type_error + 'y option" where
  "resolve_optional f x =
     (case x of None \<Rightarrow> Inr None | Some v \<Rightarrow> bind_result (f v) (\<lambda>v'. Inr (Some v')))"

text \<open>
  Modelled from the spec: resolution of a statement (the resolver's source is missing),
  one depth-first pass that keeps the stack of scopes. A block, a \<^verbatim>\<open>for\<close>
  statement and a \<^verbatim>\<open>switch\<close> push a scope and pop it on exit; a variable
  declaration resolves its written type and its initializer and inserts its symbol. The
  result is the statement with resolved types, and the environment after it.
\<close>

fun resolve_stmt ::
  "library \<Rightarrow> env \<Rightarrow> (type_name, unit) stmt \<Rightarrow> type_error + ((ty, ty) stmt \<times> env)"
and resolve_stmts ::
  "library \<Rightarrow> env \<Rightarrow> (type_name, unit) stmt list \<Rightarrow> type_error + ((ty, ty) stmt list \<times> env)"
and resolve_cases ::
  "library \<Rightarrow> env \<Rightarrow> ((type_name, unit) expr option \<times> (type_name, unit) stmt list) list \<Rightarrow>
   type_error + ((ty, ty) expr option \<times> (ty, ty) stmt list) list"
where
  "resolve_stmt L env (VariableDeclaration n x i) =
     bind_result (resolve_type (structs env) (init_length i) n) (\<lambda>t.
     bind_result (resolve_optional (resolve_init L env t) i) (\<lambda>i'.
     bind_result
       (declare_symbol env \<lparr>sym_name = x, sym_type = t, sym_kind = current_kind env,
          sym_decayed = False\<rparr>)
       (\<lambda>env'. Inr (VariableDeclaration t x i', env'))))"
| "resolve_stmt L env (Block ss) =
     bind_result (resolve_stmts L (push_scope env) ss) (\<lambda>(ss', inner). Inr (Block ss', env))"
| "resolve_stmt L env (If c t None) =
     bind_result (resolve_condition L env c) (\<lambda>c'.
     bind_result (resolve_stmt L env t) (\<lambda>(t', e1). Inr (If c' t' None, env)))"
| "resolve_stmt L env (If c t (Some e)) =
     bind_result (resolve_condition L env c) (\<lambda>c'.
     bind_result (resolve_stmt L env t) (\<lambda>(t', e1).
     bind_result (resolve_stmt L env e) (\<lambda>(e', e2). Inr (If c' t' (Some e'), env))))"
| "resolve_stmt L env (For None c s b) =
     bind_result (resolve_optional (resolve_condition L (push_scope env)) c) (\<lambda>c'.
     bind_result (resolve_optional (resolve_expr L (push_scope env)) s) (\<lambda>s'.
     bind_result (resolve_stmt L (push_scope env) b) (\<lambda>(b', e2).
       Inr (For None c' s' b', env))))"
| "resolve_stmt L env (For (Some i) c s b) =
     bind_result (resolve_stmt L (push_scope env) i) (\<lambda>(i', e1).
     bind_result (resolve_optional (resolve_condition L e1) c) (\<lambda>c'.
     bind_result (resolve_optional (resolve_expr L e1) s) (\<lambda>s'.
     bind_result (resolve_stmt L e1 b) (\<lambda>(b', e2).
       Inr (For (Some i') c' s' b', env)))))"
| "resolve_stmt L env (While c b) =
     bind_result (resolve_condition L env c) (\<lambda>c'.
     bind_result (resolve_stmt L env b) (\<lambda>(b', e1). Inr (While c' b', env)))"
| "resolve_stmt L env (DoWhile b c) =
     bind_result (resolve_stmt L env b) (\<lambda>(b', e1).
     bind_result (resolve_condition L env c) (\<lambda>c'. Inr (DoWhile b' c', env)))"
| "resolve_stmt L env (Switch e cs) =
     bind_result (resolve_expr L env e) (\<lambda>e'.
       if \<not> integral (annot e') then Inl (TypeError ''switch on a value that is not an integer'')
       else bind_result (resolve_cases L (push_scope env) cs) (\<lambda>cs'. Inr (Switch e' cs', env)))"
| "resolve_stmt L env Break = Inr (Break, env)"
| "resolve_stmt L env Continue = Inr (Continue, env)"
| "resolve_stmt L env (Return None) = Inr (Return None, env)"
| "resolve_stmt L env (Return (Some e)) =
     bind_result (resolve_expr L env e) (\<lambda>e'.
       if assignable (annot e') (return_type env) then Inr (Return (Some e'), env)
       else Inl (TypeError ''returned value is not assignable to the return type''))"
| "resolve_stmt L env (ExpressionStatement e) =
     bind_result (resolve_expr L env e) (\<lambda>e'. Inr (ExpressionStatement e', env))"
| "resolve_stmts L env [] = Inr ([], env)"
| "resolve_stmts L env (s # ss) =
     bind_result (resolve_stmt L env s) (\<lambda>(s', e1).
     bind_result (resolve_stmts L e1 ss) (\<lambda>(ss', e2). Inr (s' # ss', e2)))"
| "resolve_cases L env [] = Inr []"
| "resolve_cases L env ((l, b) # cs) =
     bind_result (resolve_optional (resolve_expr L env) l) (\<lambda>l'.
     bind_result (resolve_stmts L env b) (\<lambda>(b', e1).
     bind_result (resolve_cases L e1 cs) (\<lambda>cs'. Inr ((l', b') # cs'))))"

subsection \<open>Translation units\<close>

text \<open>
  Modelled from the spec: an array decays to a pointer to its elements when it is the
  type of a parameter, and the resolver records that it did (the resolver's source is
  missing).
\<close>

definition decay :: "ty \<Rightarrow> ty \<times> bool" where
  "decay t = (case t of Array u n \<Rightarrow> (Pointer u, True) | _ \<Rightarrow> (t, False))"

text \<open>
  Modelled from the spec: the symbol of a parameter; its array type may leave the size
  out (the resolver's source is missing).
\<close>

definition resolve_parameter ::
  "(string \<times> (string \<times> ty) list) list \<Rightarrow> type_name \<times> string \<Rightarrow> type_error + symbol" where
  "resolve_parameter S p =
     bind_result (resolve_type S (Some 0) (fst p)) (\<lambda>t.
       Inr \<lparr>sym_name = snd p, sym_type = fst (decay t), sym_kind = FunctionParameter,
            sym_decayed = snd (decay t)\<rparr>)"

text \<open>
  Modelled from the spec: the symbols of the parameters of a function, in their order
  (the resolver's source is missing).
\<close>

fun resolve_parameters ::
  "(string \<times> (string \<times> ty) list) list \<Rightarrow> (type_name \<times> string) list \<Rightarrow> type_error + symbol list"
where
  "resolve_parameters S [] = Inr []"
| "resolve_parameters S (p # ps) =
     bind_result (resolve_parameter S p) (\<lambda>s.
     bind_result (resolve_parameters S ps) (\<lambda>ss. Inr (s # ss)))"

text \<open>
  Modelled from the spec: the function-signature type of a function declaration, its
  parameter types and its result type (the resolver's source is missing).
\<close>

definition signature ::
  "(string \<times> (string \<times> ty) list) list \<Rightarrow> type_name \<Rightarrow> (type_name \<times> string) list \<Rightarrow>
   type_error + ty" where
  "signature S n ps =
     bind_result (resolve_type S None n) (\<lambda>r.
     bind_result (resolve_parameters S ps) (\<lambda>ss. Inr (Function (map sym_type ss) r)))"

text \<open>
  Modelled from the spec: the fields of a struct declaration, each with its resolved
  type, in the order in which the declaration lists them (the resolver's source is
  missing).
\<close>

fun resolve_members ::
  "(string \<times> (string \<times> ty) list) list \<Rightarrow> (type_name \<times> string) list \<Rightarrow>
   type_error + (string \<times> ty) list" where
  "resolve_members S [] = Inr []"
| "resolve_members S ((n, f) # fs) =
     bind_result (resolve_type S None n) (\<lambda>t.
     bind_result (resolve_members S fs) (\<lambda>r. Inr ((f, t) # r)))"

text \<open>
  Modelled from the spec: several symbols declared one after the other in the current
  scope (the resolver's source is missing).
\<close>

fun declare_symbols :: "env \<Rightarrow> symbol list \<Rightarrow> type_error + env" where
  "declare_symbols env [] = Inr env"
| "declare_symbols env (s # ss) =
     bind_result (declare_symbol env s) (\<lambda>env'. declare_symbols env' ss)"

text \<open>
  Modelled from the spec: the symbol of a constant of an enum declaration (the
  resolver's source is missing).
\<close>

definition enum_constant :: "string \<Rightarrow> symbol" where
  "enum_constant c =
     \<lparr>sym_name = c, sym_type = Integer True 32, sym_kind = Global, sym_decayed = False\<rparr>"

text \<open>
  Modelled from the spec: the first pass over one top-level declaration (the resolver's
  source is missing). A struct declaration enters the table of structs under its name
  with its resolved fields; a function declaration, prototype or definition, enters the
  global scope with its signature, and a second declaration of the function must have
  the same signature; the constants of an enum enter the global scope. Global variables
  wait for the second pass.
\<close>

fun collect_signature :: "env \<Rightarrow> (type_name, unit) decl \<Rightarrow> type_error + env" where
  "collect_signature env (FunctionDeclaration n f ps b) =
     bind_result (signature (structs env) n ps) (\<lambda>sg.
       case lookup (scopes env) f of
         None \<Rightarrow>
           declare_symbol env
             \<lparr>sym_name = f, sym_type = sg, sym_kind = Global, sym_decayed = False\<rparr>
       | Some s \<Rightarrow>
           if sym_type s = sg then Inr env
           else Inl (TypeError (''conflicting declarations of '' @ f)))"
| "collect_signature env (StructDeclaration s fs) =
     (if s \<in> set (map fst (structs env)) then Inl (TypeError (''redeclaration of struct '' @ s))
      else bind_result (resolve_members (structs env) fs) (\<lambda>ms.
        if distinct (map fst ms) then Inr (env\<lparr>structs := (s, ms) # structs env\<rparr>)
        else Inl (TypeError (''field declared twice in struct '' @ s))))"
| "collect_signature env (EnumDeclaration s cs) = declare_symbols env (map enum_constant cs)"
| "collect_signature env (GlobalDeclaration d) = Inr env"

text \<open>
  Modelled from the spec: the first pass, over all top-level declarations in source
  order (the resolver's source is missing).
\<close>

fun collect_signatures :: "env \<Rightarrow> (type_name, unit) decl list \<Rightarrow> type_error + env" where
  "collect_signatures env [] = Inr env"
| "collect_signatures env (d # ds) =
     bind_result (collect_signature env d) (\<lambda>env'. collect_signatures env' ds)"

text \<open>
  Modelled from the spec: only a variable declaration stands at the top level of a unit
  as a statement (the resolver's source is missing).
\<close>

fun is_variable_declaration :: "('n, 'a) stmt \<Rightarrow> bool" where
  "is_variable_declaration (VariableDeclaration _ _ _) = True"
| "is_variable_declaration _ = False"

text \<open>
  Modelled from the spec: the second pass over one top-level declaration (the resolver's
  source is missing). The body of a function is resolved in a new scope that holds the
  parameters, with the function's result type as the type to return; a global variable
  is resolved as a declaration in the global scope.
\<close>

fun resolve_decl ::
  "library \<Rightarrow> env \<Rightarrow> (type_name, unit) decl \<Rightarrow> type_error + ((ty, ty) decl \<times> env)" where
  "resolve_decl L env (FunctionDeclaration n f ps b) =
     bind_result (resolve_type (structs env) None n) (\<lambda>r.
     bind_result (resolve_parameters (structs env) ps) (\<lambda>ss.
       case b of
         None \<Rightarrow> Inr (FunctionDeclaration r f (zip (map sym_type ss) (map snd ps)) None, env)
       | Some body \<Rightarrow>
           bind_result (declare_symbols ((push_scope env)\<lparr>return_type := r\<rparr>) ss) (\<lambda>inner.
           bind_result (resolve_stmts L inner body) (\<lambda>(body', e1).
             Inr (FunctionDeclaration r f (zip (map sym_type ss) (map snd ps)) (Some body'),
                  env)))))"
| "resolve_decl L env (StructDeclaration s fs) =
     (case map_of (structs env) s of
        None \<Rightarrow> Inl (TypeError (''unknown struct '' @ s))
      | Some ms \<Rightarrow> Inr (StructDeclaration s (map (\<lambda>(f, t). (t, f)) ms), env))"
| "resolve_decl L env (EnumDeclaration s cs) = Inr (EnumDeclaration s cs, env)"
| "resolve_decl L env (GlobalDeclaration d) =
     (if is_variable_declaration d
      then bind_result (resolve_stmt L env d) (\<lambda>(d', env'). Inr (GlobalDeclaration d', env'))
      else Inl (TypeError ''statement outside of a function''))"

text \<open>
  Modelled from the spec: the second pass, over all top-level declarations in source
  order (the resolver's source is missing).
\<close>

fun resolve_decls ::
  "library \<Rightarrow> env \<Rightarrow> (type_name, unit) decl list \<Rightarrow> type_error + ((ty, ty) decl list \<times> env)"
where
  "resolve_decls L env [] = Inr ([], env)"
| "resolve_decls L env (d # ds) =
     bind_result (resolve_decl L env d) (\<lambda>(d', e1).
     bind_result (resolve_decls L e1 ds) (\<lambda>(ds', e2). Inr (d' # ds', e2)))"

text \<open>
  Modelled from the spec: the names of the functions a unit defines, one for each
  definition (the resolver's source is missing).
\<close>

fun defined_functions :: "('n, 'a) decl list \<Rightarrow> string list" where
  "defined_functions [] = []"
| "defined_functions (FunctionDeclaration n f ps (Some b) # ds) = f # defined_functions ds"
| "defined_functions (d # ds) = defined_functions ds"

text \<open>
  Modelled from the spec: the environment the resolver starts from, one empty global
  scope and no struct (the resolver's source is missing).
\<close>

definition initial_env :: env where
  "initial_env = \<lparr>scopes = [[]], structs = [], return_type = Void\<rparr>"

text \<open>
  Modelled from the spec: \<open>resolve\<close>, from a unit to the unit with resolved types or a
  type error (the resolver's source is missing): the first pass collects the structs
  and the signatures, the second resolves the bodies against them. A function defined
  twice is a type error.
\<close>

fun resolve :: "library \<Rightarrow> (type_name, unit) program \<Rightarrow> type_error + (ty, ty) program" where
  "resolve L (Program ds) =
     (if \<not> distinct (defined_functions ds) then Inl (TypeError ''function defined twice'')
      else
        bind_result (collect_signatures initial_env ds) (\<lambda>globals.
        bind_result (resolve_decls L globals ds) (\<lambda>(ds', e). Inr (Program ds'))))"

subsection \<open>The fixture test11\_struct.c\<close>

text \<open>
  \<^verbatim>\<open>
  struct Point {
      int x;
      int y;
  };

  struct Rectangle {
      int width;
      int height;
  };

  int area(int w, int h) {
      return w * h;
  }

  int main() {
      struct Point p;
      p.x = 3;
      p.y = 4;
      printf("Point: (%d, %d)\n", p.x, p.y);

      struct Point q = {10, 20};
      printf("Q: (%d, %d)\n", q.x, q.y);

      int dist;
      dist = p.x + p.y;
      printf("dist = %d\n", dist);

      struct Rectangle r;
      r.width = 5;
      r.height = 8;
      int a;
      a = area(r.width, r.height);
      printf("Area = %d\n", a);

      return 0;
  }
  \<close>
  The unit (above without its comments and its include line) as a tree, with the
  values between the braces of \<open>q\<close> left open, so that the same unit can be read
  with one value less or one more.
\<close>

type_synonym source_expr = "(type_name, unit) expr"
type_synonym source_stmt = "(type_name, unit) stmt"

definition int_type :: type_name where
  "int_type = Primitive ''int''"

definition lit :: "int \<Rightarrow> source_expr" where
  "lit k = Literal () (IntLit k)"

definition var :: "string \<Rightarrow> source_expr" where
  "var x = Identifier () x"

definition member :: "string \<Rightarrow> string \<Rightarrow> source_expr" where
  "member x f = MemberExpr () (Identifier () x) f"

definition assign :: "source_expr \<Rightarrow> source_expr \<Rightarrow> source_stmt" where
  "assign l r = ExpressionStatement (AssignExpr () None l r)"

definition call :: "string \<Rightarrow> source_expr list \<Rightarrow> source_expr" where
  "call f args = CallExpr () (Identifier () f) args"

definition printf_stmt :: "string \<Rightarrow> source_expr list \<Rightarrow> source_stmt" where
  "printf_stmt fmt args = ExpressionStatement (call ''printf'' (Literal () (StringLit fmt) # args))"

text \<open>The declaration of \<open>q\<close> at line 27, with the values \<open>vs\<close> between the braces.\<close>

definition point_q :: "int list \<Rightarrow> source_stmt" where
  "point_q vs =
     VariableDeclaration (StructName ''Point'') ''q''
       (Some (BraceInit (map (\<lambda>k. ExprInit (Literal () (IntLit k))) vs)))"

definition point_members :: "(type_name \<times> string) list" where
  "point_members = [(int_type, ''x''), (int_type, ''y'')]"

definition test11_main :: "int list \<Rightarrow> source_stmt list" where
  "test11_main vs =
     [VariableDeclaration (StructName ''Point'') ''p'' None,
      assign (member ''p'' ''x'') (lit 3),
      assign (member ''p'' ''y'') (lit 4),
      printf_stmt ''Point: (%d, %d)\<newline>'' [member ''p'' ''x'', member ''p'' ''y''],
      point_q vs,
      printf_stmt ''Q: (%d, %d)\<newline>'' [member ''q'' ''x'', member ''q'' ''y''],
      VariableDeclaration int_type ''dist'' None,
      assign (var ''dist'') (BinaryExpr () Add (member ''p'' ''x'') (member ''p'' ''y'')),
      printf_stmt ''dist = %d\<newline>'' [var ''dist''],
      VariableDeclaration (StructName ''Rectangle'') ''r'' None,
      assign (member ''r'' ''width'') (lit 5),
      assign (member ''r'' ''height'') (lit 8),
      VariableDeclaration int_type ''a'' None,
      assign (var ''a'') (call ''area'' [member ''r'' ''width'', member ''r'' ''height'']),
      printf_stmt ''Area = %d\<newline>'' [var ''a''],
      Return (Some (lit 0))]"

definition test11_declarations :: "int list \<Rightarrow> (type_name, unit) decl list" where
  "test11_declarations vs =
     [StructDeclaration ''Point'' point_members,
      StructDeclaration ''Rectangle'' [(int_type, ''width''), (int_type, ''height'')],
      FunctionDeclaration int_type ''area'' [(int_type, ''w''), (int_type, ''h'')]
        (Some [Return (Some (BinaryExpr () Mul (var ''w'') (var ''h'')))]),
      FunctionDeclaration int_type ''main'' [] (Some (test11_main vs))]"

definition test11_struct :: "int list \<Rightarrow> (type_name, unit) program" where
  "test11_struct vs = Program (test11_declarations vs)"

text \<open>
  Modelled from the spec: the entry of the mapping table for the formatted output
  routine the fixture calls (the table's source is missing).
\<close>

definition library_mapping_table :: library where
  "library_mapping_table =
    [\<lparr>callee = ''printf'', shape = [StringLiteralArgument], variadic = True,
      result = Integer True 32, strategy = MethodCall (Some ''System.out'') ''printf'',
      transform = KeepArguments\<rparr>]"

text \<open>
  Modelled from the spec: what the resolver holds while it reads the fixture (the
  resolver's source is missing): the fields of \<^verbatim>\<open>struct Point\<close> as resolved, the
  environment after the first pass, and the environment in which it reaches line 27,
  inside \<^verbatim>\<open>main\<close> and after the declaration of \<open>p\<close>.
\<close>

definition point_fields :: "(string \<times> ty) list" where
  "point_fields = [(''x'', Integer True 32), (''y'', Integer True 32)]"

definition test11_globals :: env where
  "test11_globals =
     \<lparr>scopes =
        [[\<lparr>sym_name = ''main'', sym_type = Function [] (Integer True 32), sym_kind = Global,
           sym_decayed = False\<rparr>,
          \<lparr>sym_name = ''area'',
           sym_type = Function [Integer True 32, Integer True 32] (Integer True 32),
           sym_kind = Global, sym_decayed = False\<rparr>]],
      structs =
        [(''Rectangle'', [(''width'', Integer True 32), (''height'', Integer True 32)]),
         (''Point'', point_fields)],
      return_type = Void\<rparr>"

definition symbol_p :: symbol where
  "symbol_p =
     \<lparr>sym_name = ''p'', sym_type = Struct ''Point'' point_fields, sym_kind = Local,
      sym_decayed = False\<rparr>"

definition struct_env :: env where
  "struct_env =
     test11_globals\<lparr>scopes := [symbol_p] # scopes test11_globals,
       return_type := Integer True 32\<rparr>"

text \<open>
  Reading a resolved unit: the statements of the function \<open>f\<close>, and among statements
  the declarations of \<open>x\<close>.
\<close>

fun function_body :: "string \<Rightarrow> ('n, 'a) decl list \<Rightarrow> ('n, 'a) stmt list" where
  "function_body f [] = []"
| "function_body f (FunctionDeclaration r g ps (Some b) # ds) =
     (if g = f then b else function_body f ds)"
| "function_body f (d # ds) = function_body f ds"

fun declares :: "string \<Rightarrow> ('n, 'a) stmt \<Rightarrow> bool" where
  "declares x (VariableDeclaration t y i) = (y = x)"
| "declares x s = False"

definition declarations_of ::
  "string \<Rightarrow> string \<Rightarrow> type_error + ('n, 'a) program \<Rightarrow> type_error + ('n, 'a) stmt list" where
  "declarations_of f x r =
     (case r of
        Inl e \<Rightarrow> Inl e
      | Inr p \<Rightarrow> (case p of Program ds \<Rightarrow> Inr (filter (declares x) (function_body f ds))))"


section \<open>Properties of factorial\<close>

lemma factorial_as_fact:
  "0 \<le> sint n \<Longrightarrow> factorial n = of_nat (fact (nat (sint n)))"
proof (induction n rule: factorial.induct)
  case (1 n)
  show ?case
  proof (cases "n <=s 1")
    case True
    then have "sint n = 0 \<or> sint n = 1" using 1(2) by (auto simp: word_sle_eq)
    then show ?thesis using True by (auto simp: factorial.simps [of n])
  next
    case False
    then have gt: "1 < sint n" by (simp add: word_sle_eq)
    have pred: "sint (n - 1) = sint n - 1" by (rule sint_pred [OF False])
    have ih: "factorial (n - 1) = of_nat (fact (nat (sint n - 1)))"
      using 1(1) [OF False] gt pred by simp
    have n: "n = of_nat (nat (sint n))" using gt by simp
    obtain k where k: "nat (sint n) = Suc k" using gt by (cases "nat (sint n)") auto
    then have k': "nat (sint n - 1) = k" by linarith
    have "factorial n = n * factorial (n - 1)"
      using False by (simp add: factorial.simps [of n])
    also have "\<dots> = of_nat (Suc k) * of_nat (fact k)" using ih n k k' by metis
    also have "\<dots> = of_nat (fact (Suc k))" by (simp add: algebra_simps)
    finally show ?thesis using k by simp
  qed
qed

lemma sint_fact_small:
  assumes "k \<le> 12"
  shows "sint (of_nat (fact k) :: cint) = int (fact k)"
proof -
  define m :: nat where "m = fact k"
  have "m \<le> fact 12" unfolding m_def using assms by (rule fact_mono)
  also have "(fact 12 :: nat) = 479001600" by (simp add: fact_numeral)
  finally have b: "int m < 2 ^ 31" by simp
  have c: "- (2 ^ 31) \<le> int m" by simp
  have "(of_nat m :: cint) = word_of_int (int m)"
    by (rule of_int_of_nat_eq [symmetric])
  then have "sint (of_nat m :: cint) = int m"
    by (simp only: sint_word_of_int_small [OF c b])
  then show ?thesis unfolding m_def .
qed

text \<open>
  C9, as stated: for every \<open>n \<ge> 0\<close> the function returns the mathematical factorial
  of \<open>n\<close>. It fails at \<open>n = 13\<close>: \<open>13! = 6227020800\<close> is not a value of a 32-bit
  \<^verbatim>\<open>int\<close>, and the wrapped product is \<open>1932053504\<close>.
\<close>

theorem factorial_13_counterexample:
  "sint (factorial 13) = 1932053504 \<and> sint (factorial 13) \<noteq> int (fact 13)"
  by (simp add: factorial.simps word_sle_eq fact_numeral)

text \<open>
  C9, amended: factorial terminates on every argument (it is a total function, by the
  measure given at its definition). For \<open>n \<le> 1\<close> it returns 1 without a recursive call;
  for \<open>n > 1\<close> its only recursive call is on \<open>n - 1\<close>, whose signed value is one less
  and so strictly closer to the base case; and for every \<open>n\<close> from 0 to 12 the result is
  the mathematical factorial of \<open>n\<close>.
\<close>

theorem factorial_terminates_and_computes:
  "(n <=s 1 \<longrightarrow> factorial n = 1) \<and>
   (\<not> n <=s 1 \<longrightarrow>
      factorial n = n * factorial (n - 1) \<and> sint (n - 1) = sint n - 1 \<and>
      nat (sint (n - 1)) < nat (sint n)) \<and>
   (0 \<le> sint n \<and> sint n \<le> 12 \<longrightarrow> sint (factorial n) = int (fact (nat (sint n))))"
proof (intro conjI impI)
  assume "n <=s 1"
  then show "factorial n = 1" by (simp add: factorial.simps [of n])
next
  assume a: "\<not> n <=s 1"
  then show "factorial n = n * factorial (n - 1)" by (simp add: factorial.simps [of n])
  show "sint (n - 1) = sint n - 1" by (rule sint_pred [OF a])
  then show "nat (sint (n - 1)) < nat (sint n)" using a by (simp add: word_sle_eq)
next
  assume a: "0 \<le> sint n \<and> sint n \<le> 12"
  then have "nat (sint n) \<le> 12" by linarith
  then show "sint (factorial n) = int (fact (nat (sint n)))"
    using a by (simp only: factorial_as_fact sint_fact_small)
qed

theorem factorial_terminates_and_computes_witness:
  "(0::cint) <=s 1 \<and> factorial 0 = 1 \<and>
   \<not> (5::cint) <=s 1 \<and> sint (5 - 1 :: cint) = sint (5::cint) - 1 \<and>
   0 \<le> sint (5::cint) \<and> sint (5::cint) \<le> 12 \<and> sint (factorial 5) = 120"
proof -
  have le0: "(0::cint) <=s 1" by (simp add: word_sle_eq)
  have gt5: "\<not> (5::cint) <=s 1" by (simp add: word_sle_eq)
  have rg5: "0 \<le> sint (5::cint) \<and> sint (5::cint) \<le> 12" by simp
  have "factorial 0 = 1"
    using factorial_terminates_and_computes [of 0] le0 by blast
  moreover have "sint (5 - 1 :: cint) = sint (5::cint) - 1"
    using factorial_terminates_and_computes [of 5] gt5 by blast
  moreover have "sint (factorial 5) = int (fact (nat (sint (5::cint))))"
    using factorial_terminates_and_computes [of 5] rg5 by blast
  then have "sint (factorial 5) = 120" by (simp add: fact_numeral)
  ultimately show ?thesis using le0 gt5 rg5 by blast
qed


section \<open>The output of matrix\_multiply\<close>

text \<open>
  C10: run from the empty state, \<^verbatim>\<open>main\<close> of the matrix\_multiply fixture returns 0
  and has printed exactly the text of its trailing expected-output comment: \<open>A\<close> and
  \<open>B\<close> row by row, then the product, whose first row is 19 22 and second row 43 50
  in the cells of \<open>C\<close> that \<^verbatim>\<open>multiply_2x2\<close> wrote.
\<close>

theorem matrix_multiply_main_output:
  "(case main initial_state of
      Inl e \<Rightarrow> False
    | Inr (r, st) \<Rightarrow>
        r = 0 \<and> stdout st = expected_output \<and>
        load_elem st main_C 0 0 = Inr 19 \<and> load_elem st main_C 0 1 = Inr 22 \<and>
        load_elem st main_C 1 0 = Inr 43 \<and> load_elem st main_C 1 1 = Inr 50)"
  by (simp add: main_def initial_state_def expected_output_def print_mat_def multiply_2x2_def
      main_A_def main_B_def main_C_def then_do_def load_elem_def store_elem_def elem_addr_def
      printf_s_def printf_d_def show_int_def show_nat.simps digit_char_def
      word_sless_alt word_sle_eq)


section \<open>Struct initializers in the resolver\<close>

subsection \<open>Results and errors\<close>

lemma bind_result_Inr_iff:
  "bind_result r f = Inr y \<longleftrightarrow> (\<exists>v. r = Inr v \<and> f v = Inr y)"
  by (cases r) (simp_all add: bind_result_def)

lemma bind_result_Inl [simp]: "bind_result (Inl e) f = Inl e"
  by (simp add: bind_result_def)

lemma bind_result_Inr [simp]: "bind_result (Inr v) f = f v"
  by (simp add: bind_result_def)

subsection \<open>Values between braces\<close>

text \<open>
  The values between the braces of a struct initializer are accepted exactly when they
  are no more than the fields and the \<open>i\<close>-th value resolves against the type of the
  \<open>i\<close>-th field; the result then names the \<open>i\<close>-th value after the \<open>i\<close>-th field.
\<close>

lemma resolve_fields_iff:
  "resolve_fields L env fs vs = Inr r \<longleftrightarrow>
   length vs \<le> length fs \<and> length r = length vs \<and>
   (\<forall>i<length vs. fst (r ! i) = fst (fs ! i) \<and>
      resolve_init L env (snd (fs ! i)) (vs ! i) = Inr (snd (r ! i)))"
proof (induction vs arbitrary: fs r)
  case Nil
  then show ?case by auto
next
  case (Cons v vs)
  show ?case
  proof (cases fs)
    case Nil
    then show ?thesis by simp
  next
    case fs: (Cons ft fs')
    obtain f t where ft: "ft = (f, t)" by (cases ft)
    show ?thesis
    proof (cases r)
      case Nil
      then show ?thesis by (auto simp: fs ft bind_result_Inr_iff)
    next
      case r: (Cons p r')
      obtain g v' where p: "p = (g, v')" by (cases p)
      have "resolve_fields L env fs (v # vs) = Inr r \<longleftrightarrow>
            f = g \<and> resolve_init L env t v = Inr v' \<and> resolve_fields L env fs' vs = Inr r'"
        by (auto simp: fs ft r p bind_result_Inr_iff)
      also have "\<dots> \<longleftrightarrow> f = g \<and> resolve_init L env t v = Inr v' \<and>
          length vs \<le> length fs' \<and> length r' = length vs \<and>
          (\<forall>i<length vs. fst (r' ! i) = fst (fs' ! i) \<and>
             resolve_init L env (snd (fs' ! i)) (vs ! i) = Inr (snd (r' ! i)))"
        by (simp only: Cons.IH)
      also have "\<dots> \<longleftrightarrow> length (v # vs) \<le> length fs \<and> length r = length (v # vs) \<and>
          (\<forall>i<length (v # vs). fst (r ! i) = fst (fs ! i) \<and>
             resolve_init L env (snd (fs ! i)) ((v # vs) ! i) = Inr (snd (r ! i)))"
        by (auto simp: fs ft r p All_less_Suc2 less_Suc_eq_0_disj)
      finally show ?thesis .
    qed
  qed
qed

subsection \<open>The table of structs\<close>

text \<open>
  The first pass only adds to the table of structs, and what it adds for a struct
  declaration are the fields of the declaration, in its order, with their types
  resolved.
\<close>

lemma resolve_type_mono:
  "resolve_type S len n = Inr t \<Longrightarrow> map_of S \<subseteq>\<^sub>m map_of S' \<Longrightarrow> resolve_type S' len n = Inr t"
proof (induction n arbitrary: len t)
  case (Primitive x)
  then show ?case by simp
next
  case (StructName x)
  then obtain fs where "map_of S x = Some fs" "t = Struct x fs"
    by (auto split: option.splits)
  moreover then have "map_of S' x = Some fs"
    using StructName.prems(2) by (auto simp: map_le_def dom_def)
  ultimately show ?case by simp
next
  case (PointerTo n)
  then show ?case by (auto simp: bind_result_Inr_iff)
next
  case (ArrayOf n ds)
  then show ?case by (auto simp: bind_result_Inr_iff)
qed

lemma resolve_members_mono:
  "resolve_members S ms = Inr fs \<Longrightarrow> map_of S \<subseteq>\<^sub>m map_of S' \<Longrightarrow>
   resolve_members S' ms = Inr fs"
  by (induction S ms arbitrary: fs rule: resolve_members.induct)
     (auto simp: bind_result_Inr_iff dest: resolve_type_mono)

lemma resolve_members_names:
  "resolve_members S ms = Inr fs \<Longrightarrow> map fst fs = map snd ms"
  by (induction S ms arbitrary: fs rule: resolve_members.induct)
     (auto simp: bind_result_Inr_iff)

lemma declare_symbol_structs:
  "declare_symbol env s = Inr env' \<Longrightarrow> structs env' = structs env"
  by (auto simp: declare_symbol_def split: list.splits if_splits)

lemma declare_symbols_structs:
  "declare_symbols env ss = Inr env' \<Longrightarrow> structs env' = structs env"
  by (induction ss arbitrary: env) (auto simp: bind_result_Inr_iff dest: declare_symbol_structs)

lemma collect_signature_structs:
  assumes "collect_signature env d = Inr env'"
  shows "map_of (structs env) \<subseteq>\<^sub>m map_of (structs env')"
proof (cases d)
  case (FunctionDeclaration n f ps b)
  then have "structs env' = structs env"
    using assms
    by (auto simp: bind_result_Inr_iff split: option.splits if_splits
        dest: declare_symbol_structs)
  then show ?thesis by simp
next
  case (StructDeclaration s fs)
  then have "s \<notin> set (map fst (structs env))"
    using assms by (auto split: if_splits)
  then have "map_of (structs env) s = None" by (simp add: map_of_eq_None_iff)
  then have "map_of (structs env) \<subseteq>\<^sub>m map_of ((s, ms) # structs env)" for ms
    by (auto simp: map_le_def dom_def)
  then show ?thesis
    using assms StructDeclaration by (auto simp: bind_result_Inr_iff split: if_splits)
next
  case (EnumDeclaration s cs)
  then show ?thesis using assms by (auto dest: declare_symbols_structs)
next
  case (GlobalDeclaration x)
  then show ?thesis using assms by auto
qed

lemma collect_signatures_structs:
  "collect_signatures env ds = Inr g \<Longrightarrow> map_of (structs env) \<subseteq>\<^sub>m map_of (structs g)"
proof (induction ds arbitrary: env)
  case Nil
  then show ?case by simp
next
  case (Cons d ds)
  from Cons.prems obtain e1 where
    e1: "collect_signature env d = Inr e1" and rest: "collect_signatures e1 ds = Inr g"
    by (auto simp: bind_result_Inr_iff)
  from collect_signature_structs [OF e1] Cons.IH [OF rest] show ?case
    by (rule map_le_trans)
qed

lemma collect_signature_declares_struct:
  assumes "collect_signature env (StructDeclaration s ms) = Inr env'"
  shows "\<exists>fs. map_of (structs env') s = Some fs \<and> resolve_members (structs env') ms = Inr fs"
proof -
  from assms obtain fs where
    fs: "resolve_members (structs env) ms = Inr fs" and
    env': "env' = env\<lparr>structs := (s, fs) # structs env\<rparr>"
    by (auto simp: bind_result_Inr_iff split: if_splits)
  have "resolve_members (structs env') ms = Inr fs"
    using fs collect_signature_structs [OF assms] by (rule resolve_members_mono)
  then show ?thesis by (simp add: env')
qed

lemma collect_signatures_declare_struct:
  "collect_signatures env ds = Inr g \<Longrightarrow> StructDeclaration s ms \<in> set ds \<Longrightarrow>
   \<exists>fs. map_of (structs g) s = Some fs \<and> resolve_members (structs g) ms = Inr fs"
proof (induction ds arbitrary: env)
  case Nil
  then show ?case by simp
next
  case (Cons d ds)
  from Cons.prems(1) obtain e1 where
    e1: "collect_signature env d = Inr e1" and rest: "collect_signatures e1 ds = Inr g"
    by (auto simp: bind_result_Inr_iff)
  show ?case
  proof (cases "d = StructDeclaration s ms")
    case True
    from collect_signature_declares_struct [OF e1 [unfolded True]] obtain fs where
      fs: "map_of (structs e1) s = Some fs" "resolve_members (structs e1) ms = Inr fs"
      by auto
    have le: "map_of (structs e1) \<subseteq>\<^sub>m map_of (structs g)"
      by (rule collect_signatures_structs [OF rest])
    from fs(1) le have "map_of (structs g) s = Some fs"
      by (auto simp: map_le_def dom_def)
    moreover have "resolve_members (structs g) ms = Inr fs"
      using fs(2) le by (rule resolve_members_mono)
    ultimately show ?thesis by blast
  next
    case False
    with Cons.prems(2) have "StructDeclaration s ms \<in> set ds" by simp
    from Cons.IH [OF rest this] show ?thesis .
  qed
qed

text \<open>
  The second pass leaves the table of structs as the first pass built it: every
  statement of every function body is resolved against the same table.
\<close>

lemma resolve_stmt_keeps_structs:
  "resolve_stmt L env s = Inr (s', env') \<Longrightarrow> structs env' = structs env"
  "resolve_stmts L env ss = Inr (ss', env') \<Longrightarrow> structs env' = structs env"
  "resolve_cases L env cs = Inr cs' \<Longrightarrow> True"
  by (induction L env s and L env ss and L env cs arbitrary: s' env' and ss' env' and cs'
      rule: resolve_stmt_resolve_stmts_resolve_cases.induct)
     (auto simp: bind_result_Inr_iff dest: declare_symbol_structs split: if_splits)

lemma resolve_decl_keeps_structs:
  "resolve_decl L env d = Inr (d', env') \<Longrightarrow> structs env' = structs env"
  by (cases d)
     (auto simp: bind_result_Inr_iff dest: resolve_stmt_keeps_structs
       split: option.splits if_splits)

lemma function_body_env:
  assumes "resolve_decl L env (FunctionDeclaration n f ps (Some body)) = Inr (d', env')"
  shows "\<exists>inner body' e1. structs inner = structs env \<and>
           resolve_stmts L inner body = Inr (body', e1)"
proof -
  from assms obtain r ss inner body' e1 where
    "declare_symbols ((push_scope env)\<lparr>return_type := r\<rparr>) ss = Inr inner"
    "resolve_stmts L inner body = Inr (body', e1)"
    by (auto simp: bind_result_Inr_iff)
  moreover then have "structs inner = structs env"
    by (auto dest: declare_symbols_structs simp: push_scope_def)
  ultimately show ?thesis by blast
qed

subsection \<open>A declaration with a brace initializer\<close>

lemma struct_declaration_resolves:
  assumes s: "map_of (structs env) s = Some fs"
  shows "resolve_stmt L env (VariableDeclaration (StructName s) x (Some (BraceInit vs)))
           = Inr (d, env') \<longleftrightarrow>
         (\<exists>rs sc rest.
            scopes env = sc # rest \<and> x \<notin> set (map sym_name sc) \<and>
            length vs \<le> length fs \<and> length rs = length vs \<and>
            (\<forall>i<length vs. resolve_init L env (snd (fs ! i)) (vs ! i) = Inr (rs ! i)) \<and>
            d = VariableDeclaration (Struct s fs) x (Some (FieldInit (zip (map fst fs) rs))) \<and>
            env' = env\<lparr>scopes :=
              (\<lparr>sym_name = x, sym_type = Struct s fs, sym_kind = current_kind env,
                sym_decayed = False\<rparr> # sc) # rest\<rparr>)"
  (is "?l \<longleftrightarrow> ?r")
proof
  assume ?l
  then obtain r env1 where
    le: "\<not> length fs < length vs" and
    r: "resolve_fields L env fs vs = Inr r" and
    dc: "declare_symbol env \<lparr>sym_name = x, sym_type = Struct s fs, sym_kind = current_kind env,
            sym_decayed = False\<rparr> = Inr env'" and
    d: "d = VariableDeclaration (Struct s fs) x (Some (FieldInit r))"
    using s by (auto simp: resolve_optional_def bind_result_Inr_iff split: if_splits)
  from r have rr: "length r = length vs"
    "\<forall>i<length vs. fst (r ! i) = fst (fs ! i) \<and>
        resolve_init L env (snd (fs ! i)) (vs ! i) = Inr (snd (r ! i))"
    by (auto simp: resolve_fields_iff)
  have "r = zip (map fst fs) (map snd r)"
    using rr le by (intro nth_equalityI) (auto simp: prod_eq_iff)
  moreover from dc obtain sc rest where "scopes env = sc # rest" "x \<notin> set (map sym_name sc)"
    "env' = env\<lparr>scopes :=
              (\<lparr>sym_name = x, sym_type = Struct s fs, sym_kind = current_kind env,
                sym_decayed = False\<rparr> # sc) # rest\<rparr>"
    by (auto simp: declare_symbol_def split: list.splits if_splits)
  ultimately show ?r
    using rr le d by (intro exI [of _ "map snd r"] exI [of _ sc] exI [of _ rest]) auto
next
  assume ?r
  then obtain rs sc rest where
    sc: "scopes env = sc # rest" "x \<notin> set (map sym_name sc)" and
    le: "length vs \<le> length fs" and len: "length rs = length vs" and
    each: "\<forall>i<length vs. resolve_init L env (snd (fs ! i)) (vs ! i) = Inr (rs ! i)" and
    d: "d = VariableDeclaration (Struct s fs) x (Some (FieldInit (zip (map fst fs) rs)))" and
    env': "env' = env\<lparr>scopes :=
              (\<lparr>sym_name = x, sym_type = Struct s fs, sym_kind = current_kind env,
                sym_decayed = False\<rparr> # sc) # rest\<rparr>"
    by blast
  have "resolve_fields L env fs vs = Inr (zip (map fst fs) rs)"
    using le len each by (auto simp: resolve_fields_iff)
  then show ?l
    using s sc le d env' by (simp add: resolve_optional_def declare_symbol_def)
qed

text \<open>
  C4. A brace initializer for a struct variable has its values associated with the
  struct's fields in declaration order, and supplying more values than the struct has
  fields is a type error.

  Let a unit \<open>ds\<close> declare \<^verbatim>\<open>struct s\<close> with the members \<open>ms\<close>, and let \<open>g\<close> be the
  environment after the first pass over \<open>ds\<close>. Then the members resolve to fields
  \<open>fs\<close> with the names of \<open>ms\<close> in the order of \<open>ms\<close>, and wherever the table of
  structs is that of \<open>g\<close>, for a declaration \<^verbatim>\<open>struct s x = {vs}\<close>:
  more values than members is a type error; and the declaration resolves exactly when
  \<open>x\<close> is new in the current scope, the values are no more than the members, and the
  \<open>i\<close>-th value resolves against the type of the \<open>i\<close>-th field. Its result is then
  the declaration whose initializer pairs the name of the \<open>i\<close>-th member with the
  \<open>i\<close>-th resolved value, for each value given, and \<open>x\<close> is declared with the struct
  type.
\<close>

theorem struct_initializer_in_declaration_order:
  assumes "collect_signatures initial_env ds = Inr g"
    and "StructDeclaration s ms \<in> set ds"
  shows "\<exists>fs.
     resolve_members (structs g) ms = Inr fs \<and> map fst fs = map snd ms \<and>
     (\<forall>L env x vs. structs env = structs g \<longrightarrow>
        (length ms < length vs \<longrightarrow>
           (\<exists>m. resolve_stmt L env
                   (VariableDeclaration (StructName s) x (Some (BraceInit vs)))
                 = Inl (TypeError m))) \<and>
        (\<forall>d env'.
           resolve_stmt L env (VariableDeclaration (StructName s) x (Some (BraceInit vs)))
             = Inr (d, env') \<longleftrightarrow>
           (\<exists>rs sc rest.
              scopes env = sc # rest \<and> x \<notin> set (map sym_name sc) \<and>
              length vs \<le> length ms \<and> length rs = length vs \<and>
              (\<forall>i<length vs. resolve_init L env (snd (fs ! i)) (vs ! i) = Inr (rs ! i)) \<and>
              d = VariableDeclaration (Struct s fs) x
                    (Some (FieldInit (zip (map snd ms) rs))) \<and>
              env' = env\<lparr>scopes :=
                (\<lparr>sym_name = x, sym_type = Struct s fs, sym_kind = current_kind env,
                  sym_decayed = False\<rparr> # sc) # rest\<rparr>)))"
proof -
  from collect_signatures_declare_struct [OF assms] obtain fs where
    fs: "map_of (structs g) s = Some fs" "resolve_members (structs g) ms = Inr fs"
    by blast
  have names: "map fst fs = map snd ms" by (rule resolve_members_names [OF fs(2)])
  then have len: "length fs = length ms" by (metis length_map)
  have "(length ms < length vs \<longrightarrow>
           (\<exists>m. resolve_stmt L env
                   (VariableDeclaration (StructName s) x (Some (BraceInit vs)))
                 = Inl (TypeError m))) \<and>
        (\<forall>d env'.
           resolve_stmt L env (VariableDeclaration (StructName s) x (Some (BraceInit vs)))
             = Inr (d, env') \<longleftrightarrow>
           (\<exists>rs sc rest.
              scopes env = sc # rest \<and> x \<notin> set (map sym_name sc) \<and>
              length vs \<le> length ms \<and> length rs = length vs \<and>
              (\<forall>i<length vs. resolve_init L env (snd (fs ! i)) (vs ! i) = Inr (rs ! i)) \<and>
              d = VariableDeclaration (Struct s fs) x
                    (Some (FieldInit (zip (map snd ms) rs))) \<and>
              env' = env\<lparr>scopes :=
                (\<lparr>sym_name = x, sym_type = Struct s fs, sym_kind = current_kind env,
                  sym_decayed = False\<rparr> # sc) # rest\<rparr>))"
    if e: "structs env = structs g" for L env x vs
  proof -
    have s: "map_of (structs env) s = Some fs" using fs(1) e by simp
    have "\<exists>m. resolve_stmt L env
                   (VariableDeclaration (StructName s) x (Some (BraceInit vs)))
                 = Inl (TypeError m)" if "length ms < length vs"
      using that s len by (simp add: resolve_optional_def)
    then show ?thesis
      using struct_declaration_resolves [OF s, of L x vs] by (simp add: names len)
  qed
  then show ?thesis using fs(2) names by blast
qed

text \<open>
  The theorem at \<^verbatim>\<open>test11_struct.c\<close>: the first pass over the unit gives the table in
  which \<^verbatim>\<open>struct Point\<close> has the fields \<open>x\<close> and \<open>y\<close>, and at line 27, inside
  \<^verbatim>\<open>main\<close>, \<^verbatim>\<open>struct Point q = {10, 20}\<close> resolves with 10 for \<open>x\<close> and 20 for
  \<open>y\<close>, \<^verbatim>\<open>{10}\<close> resolves with 10 for \<open>x\<close>, and \<^verbatim>\<open>{10, 20, 30}\<close> is a type
  error.
\<close>

theorem struct_initializer_in_declaration_order_witness:
  "collect_signatures initial_env (test11_declarations [10, 20]) = Inr test11_globals \<and>
   StructDeclaration ''Point'' point_members \<in> set (test11_declarations [10, 20]) \<and>
   resolve_members (structs test11_globals) point_members = Inr point_fields \<and>
   structs struct_env = structs test11_globals \<and>
   (\<exists>m. resolve_stmt library_mapping_table struct_env (point_q [10, 20, 30])
          = Inl (TypeError m)) \<and>
   resolve_stmt library_mapping_table struct_env (point_q [10, 20]) =
     Inr (VariableDeclaration (Struct ''Point'' point_fields) ''q''
            (Some (FieldInit
               [(''x'', ExprInit (Literal (Integer True 32) (IntLit 10))),
                (''y'', ExprInit (Literal (Integer True 32) (IntLit 20)))])),
          struct_env\<lparr>scopes :=
            [\<lparr>sym_name = ''q'', sym_type = Struct ''Point'' point_fields, sym_kind = Local,
              sym_decayed = False\<rparr>, symbol_p] # scopes test11_globals\<rparr>) \<and>
   resolve_stmt library_mapping_table struct_env (point_q [10]) =
     Inr (VariableDeclaration (Struct ''Point'' point_fields) ''q''
            (Some (FieldInit [(''x'', ExprInit (Literal (Integer True 32) (IntLit 10)))])),
          struct_env\<lparr>scopes :=
            [\<lparr>sym_name = ''q'', sym_type = Struct ''Point'' point_fields, sym_kind = Local,
              sym_decayed = False\<rparr>, symbol_p] # scopes test11_globals\<rparr>)"
proof -
  let ?L = library_mapping_table
  let ?q = "\<lparr>sym_name = ''q'', sym_type = Struct ''Point'' point_fields, sym_kind = Local,
             sym_decayed = False\<rparr>"
  have first: "collect_signatures initial_env (test11_declarations [10, 20]) = Inr test11_globals"
    by (simp add: test11_declarations_def test11_globals_def initial_env_def point_members_def
        point_fields_def int_type_def signature_def resolve_parameter_def decay_def
        declare_symbol_def primitive_type_def)
  have decl: "StructDeclaration ''Point'' point_members \<in> set (test11_declarations [10, 20])"
    by (simp add: test11_declarations_def)
  have members: "resolve_members (structs test11_globals) point_members = Inr point_fields"
    by (simp add: point_members_def point_fields_def int_type_def primitive_type_def)
  have table: "structs struct_env = structs test11_globals"
    by (simp add: struct_env_def)
  have scope: "scopes struct_env = [symbol_p] # scopes test11_globals"
    by (simp add: struct_env_def)
  have fresh: "''q'' \<notin> set (map sym_name [symbol_p])"
    by (simp add: symbol_p_def)
  have kind: "current_kind struct_env = Local"
    by (simp add: current_kind_def struct_env_def test11_globals_def)
  have x: "resolve_init ?L struct_env (snd (point_fields ! 0)) (ExprInit (Literal () (IntLit 10)))
             = Inr (ExprInit (Literal (Integer True 32) (IntLit 10)))"
    by (simp add: point_fields_def assignable_def)
  have y: "resolve_init ?L struct_env (snd (point_fields ! 1)) (ExprInit (Literal () (IntLit 20)))
             = Inr (ExprInit (Literal (Integer True 32) (IntLit 20)))"
    by (simp add: point_fields_def assignable_def)
  from struct_initializer_in_declaration_order [OF first decl] obtain fs where
    fs: "resolve_members (structs test11_globals) point_members = Inr fs" and
    at: "\<And>L env x vs. structs env = structs test11_globals \<Longrightarrow>
        (length point_members < length vs \<longrightarrow>
           (\<exists>m. resolve_stmt L env
                   (VariableDeclaration (StructName ''Point'') x (Some (BraceInit vs)))
                 = Inl (TypeError m))) \<and>
        (\<forall>d env'.
           resolve_stmt L env (VariableDeclaration (StructName ''Point'') x (Some (BraceInit vs)))
             = Inr (d, env') \<longleftrightarrow>
           (\<exists>rs sc rest.
              scopes env = sc # rest \<and> x \<notin> set (map sym_name sc) \<and>
              length vs \<le> length point_members \<and> length rs = length vs \<and>
              (\<forall>i<length vs. resolve_init L env (snd (fs ! i)) (vs ! i) = Inr (rs ! i)) \<and>
              d = VariableDeclaration (Struct ''Point'' fs) x
                    (Some (FieldInit (zip (map snd point_members) rs))) \<and>
              env' = env\<lparr>scopes :=
                (\<lparr>sym_name = x, sym_type = Struct ''Point'' fs, sym_kind = current_kind env,
                  sym_decayed = False\<rparr> # sc) # rest\<rparr>))"
    by blast
  from fs members have fs_eq: "fs = point_fields" by simp
  note here = at [OF table, where L = library_mapping_table and x = "''q''", unfolded fs_eq kind]
  have three: "\<exists>m. resolve_stmt ?L struct_env (point_q [10, 20, 30]) = Inl (TypeError m)"
  proof -
    have "length point_members < length (map (\<lambda>k. ExprInit (Literal () (IntLit k))) [10, 20, 30 :: int])"
      by (simp add: point_members_def)
    with here [where vs = "map (\<lambda>k. ExprInit (Literal () (IntLit k))) [10, 20, 30]"]
    show ?thesis by (simp only: point_q_def) blast
  qed
  have two: "resolve_stmt ?L struct_env (point_q [10, 20]) =
     Inr (VariableDeclaration (Struct ''Point'' point_fields) ''q''
            (Some (FieldInit
               [(''x'', ExprInit (Literal (Integer True 32) (IntLit 10))),
                (''y'', ExprInit (Literal (Integer True 32) (IntLit 20)))])),
          struct_env\<lparr>scopes := [?q, symbol_p] # scopes test11_globals\<rparr>)"
  proof -
    let ?vs = "[ExprInit (Literal () (IntLit 10)), ExprInit (Literal () (IntLit 20))]"
    let ?rs = "[ExprInit (Literal (Integer True 32) (IntLit 10)),
                ExprInit (Literal (Integer True 32) (IntLit 20))]"
    have "\<forall>i<length ?vs. resolve_init ?L struct_env (snd (point_fields ! i)) (?vs ! i) = Inr (?rs ! i)"
      using x y by (simp add: All_less_Suc2 less_Suc_eq_0_disj)
    then have "\<exists>rs sc rest.
        scopes struct_env = sc # rest \<and> ''q'' \<notin> set (map sym_name sc) \<and>
        length ?vs \<le> length point_members \<and> length rs = length ?vs \<and>
        (\<forall>i<length ?vs. resolve_init ?L struct_env (snd (point_fields ! i)) (?vs ! i)
            = Inr (rs ! i)) \<and>
        VariableDeclaration (Struct ''Point'' point_fields) ''q''
            (Some (FieldInit
               [(''x'', ExprInit (Literal (Integer True 32) (IntLit 10))),
                (''y'', ExprInit (Literal (Integer True 32) (IntLit 20)))]))
          = VariableDeclaration (Struct ''Point'' point_fields) ''q''
              (Some (FieldInit (zip (map snd point_members) rs))) \<and>
        struct_env\<lparr>scopes := [?q, symbol_p] # scopes test11_globals\<rparr>
          = struct_env\<lparr>scopes := (?q # sc) # rest\<rparr>"
      using scope fresh
      by (intro exI [of _ ?rs] exI [of _ "[symbol_p]"] exI [of _ "scopes test11_globals"])
         (simp add: point_members_def)
    with here [where vs = ?vs] show ?thesis unfolding point_q_def list.map by blast
  qed
  have one: "resolve_stmt ?L struct_env (point_q [10]) =
     Inr (VariableDeclaration (Struct ''Point'' point_fields) ''q''
            (Some (FieldInit [(''x'', ExprInit (Literal (Integer True 32) (IntLit 10)))])),
          struct_env\<lparr>scopes := [?q, symbol_p] # scopes test11_globals\<rparr>)"
  proof -
    let ?vs = "[ExprInit (Literal () (IntLit 10))]"
    let ?rs = "[ExprInit (Literal (Integer True 32) (IntLit 10))]"
    have "\<forall>i<length ?vs. resolve_init ?L struct_env (snd (point_fields ! i)) (?vs ! i) = Inr (?rs ! i)"
      using x by simp
    then have "\<exists>rs sc rest.
        scopes struct_env = sc # rest \<and> ''q'' \<notin> set (map sym_name sc) \<and>
        length ?vs \<le> length point_members \<and> length rs = length ?vs \<and>
        (\<forall>i<length ?vs. resolve_init ?L struct_env (snd (point_fields ! i)) (?vs ! i)
            = Inr (rs ! i)) \<and>
        VariableDeclaration (Struct ''Point'' point_fields) ''q''
            (Some (FieldInit [(''x'', ExprInit (Literal (Integer True 32) (IntLit 10)))]))
          = VariableDeclaration (Struct ''Point'' point_fields) ''q''
              (Some (FieldInit (zip (map snd point_members) rs))) \<and>
        struct_env\<lparr>scopes := [?q, symbol_p] # scopes test11_globals\<rparr>
          = struct_env\<lparr>scopes := (?q # sc) # rest\<rparr>"
      using scope fresh
      by (intro exI [of _ ?rs] exI [of _ "[symbol_p]"] exI [of _ "scopes test11_globals"])
         (simp add: point_members_def)
    with here [where vs = ?vs] show ?thesis unfolding point_q_def list.map by blast
  qed
  from first decl members table three two one show ?thesis by (intro conjI)
qed

subsection \<open>The whole fixture\<close>

text \<open>
  Both passes over \<^verbatim>\<open>test11_struct.c\<close>, with the mapping table for \<^verbatim>\<open>printf\<close>:
  the unit resolves, and the declaration of \<open>q\<close> in the resolved \<^verbatim>\<open>main\<close> is the one
  above. With one value less the unit still resolves; with a third value it does not.
\<close>

lemma test11_struct_resolves:
  "declarations_of ''main'' ''q'' (resolve library_mapping_table (test11_struct [10, 20])) =
     Inr [VariableDeclaration (Struct ''Point'' point_fields) ''q''
            (Some (FieldInit
               [(''x'', ExprInit (Literal (Integer True 32) (IntLit 10))),
                (''y'', ExprInit (Literal (Integer True 32) (IntLit 20)))]))]"
  by code_simp

lemma test11_struct_one_value:
  "declarations_of ''main'' ''q'' (resolve library_mapping_table (test11_struct [10])) =
     Inr [VariableDeclaration (Struct ''Point'' point_fields) ''q''
            (Some (FieldInit [(''x'', ExprInit (Literal (Integer True 32) (IntLit 10)))]))]"
  by code_simp

lemma test11_struct_three_values:
  "resolve library_mapping_table (test11_struct [10, 20, 30]) =
     Inl (TypeError ''too many initializers for struct Point'')"
  by code_simp

end
